theory Spec2Isabelle
  imports Complex_Main "HOL-Library.AList" "HOL-Library.Char_ord" "HOL-Library.List_Lexorder"
begin

section \<open>Python values, dictionaries and classes\<close>

text \<open>
  A Python \<open>dict\<close> with string keys is an association list in insertion order. The
  assignment \<open>d[k] = v\<close> is \<open>AList.update k v d\<close>: an existing key keeps its place and
  gets the new value, a new key is appended. \<open>d.update(e)\<close> assigns the items of \<open>e\<close>
  one after the other.
\<close>

type_synonym 'v pydict = "(string \<times> 'v) list"

definition dict_keys :: "'v pydict \<Rightarrow> string list" where
  "dict_keys d = map fst d"

definition is_dict :: "'v pydict \<Rightarrow> bool" where
  "is_dict d = distinct (dict_keys d)"

definition dict_update :: "'v pydict \<Rightarrow> 'v pydict \<Rightarrow> 'v pydict" where
  "dict_update d e = fold (\<lambda>(k, v). AList.update k v) e d"

text \<open>
  \<open>d1 == d2\<close> on dictionaries: the same number of items, and every key of \<open>d1\<close> is a
  key of \<open>d2\<close> with an equal value. Two values are equal there when they are the same
  object or compare equal with \<open>==\<close>; this test on the values is a parameter.
\<close>

definition dict_eq :: "('v \<Rightarrow> 'v \<Rightarrow> bool) \<Rightarrow> 'v pydict \<Rightarrow> 'v pydict \<Rightarrow> bool" where
  "dict_eq veq d1 d2 =
     (length d1 = length d2 \<and>
      list_all (\<lambda>(k, x). case map_of d2 k of None \<Rightarrow> False | Some y \<Rightarrow> veq x y) d1)"

text \<open>
  The objects an instance dictionary holds: a parameter value of type \<open>'v\<close> (whatever
  the caller passed), or the empty list that \<open>__init__\<close> stores as \<open>required_conditions\<close>.
  Python's \<open>==\<close> and \<open>repr\<close> on parameter values are built-ins outside the repository;
  the model takes them as the parameters \<open>veq\<close> and \<open>vrepr\<close>.
\<close>

datatype 'v pyobj = Val 'v | EmptyList

fun obj_eq :: "('v \<Rightarrow> 'v \<Rightarrow> bool) \<Rightarrow> 'v pyobj \<Rightarrow> 'v pyobj \<Rightarrow> bool" where
  "obj_eq veq (Val x) (Val y) = veq x y"
| "obj_eq veq EmptyList EmptyList = True"
| "obj_eq veq _ _ = False"

fun obj_repr :: "('v \<Rightarrow> string) \<Rightarrow> 'v pyobj \<Rightarrow> string" where
  "obj_repr vrepr (Val x) = vrepr x"
| "obj_repr vrepr EmptyList = ''[]''"

text \<open>
  A class is its name, its base class and the class variables its body declares
  (\<open>None\<close>: not declared in this body). Attribute lookup on the class walks the bases.
  The contents of the dictionary that \<open>default_parameters\<close> refers to are mutable, so
  they are not part of the class value: they are the state threaded through
  construction (see \<open>dunder_init\<close>).
\<close>

record decls =
  depname :: "string option"
  name :: "string option"
  required_parameters :: "string list option"
  required_conditions :: "string list option"

datatype pyclass = PyObject | PyClass string pyclass decls

fun class_attr :: "(decls \<Rightarrow> 'a option) \<Rightarrow> pyclass \<Rightarrow> 'a option" where
  "class_attr f PyObject = None"
| "class_attr f (PyClass n base d) =
     (case f d of Some x \<Rightarrow> Some x | None \<Rightarrow> class_attr f base)"

definition hasattr :: "(decls \<Rightarrow> 'a option) \<Rightarrow> pyclass \<Rightarrow> bool" where
  "hasattr f C = (class_attr f C \<noteq> None)"

fun class_name :: "pyclass \<Rightarrow> string" where
  "class_name PyObject = ''object''"
| "class_name (PyClass n base d) = n"

fun mro :: "pyclass \<Rightarrow> pyclass list" where
  "mro PyObject = [PyObject]"
| "mro (PyClass n base d) = PyClass n base d # mro base"

definition issubclass :: "pyclass \<Rightarrow> pyclass \<Rightarrow> bool" where
  "issubclass C D = (D \<in> set (mro C))"

text \<open>An instance: its class and its \<open>__dict__\<close>.\<close>

record 'v pyinstance =
  klass :: pyclass
  attrs :: "'v pyobj pydict"

definition isinstance :: "'v pyinstance \<Rightarrow> pyclass \<Rightarrow> bool" where
  "isinstance self C = issubclass (klass self) C"

text \<open>
  The exceptions of the source. The message of the last assertion of \<open>__init__\<close>,
  \<open>"Provided %s arguments, expected %s" % (str(passed_args), str(expected_args))\<close>,
  is kept as its two arguments.
\<close>

datatype message = Text string | Provided "string list" "string list"

datatype error = AssertionError message | LookupError | AttributeError string

section \<open>The class Dependence (base.py)\<close>

definition object_setattr :: "'v pyinstance \<Rightarrow> string \<Rightarrow> 'v pyobj \<Rightarrow> 'v pyinstance" where
  "object_setattr self n x = self\<lparr>attrs := AList.update n x (attrs self)\<rparr>"

text \<open>
  \<open>__setattr__\<close> and \<open>__delattr__\<close> return the instance after the call and the outcome.
  \<open>self.required_parameters\<close> is read from the class: the model is about classes whose
  parameters are not named like a class variable of the contract (\<open>shadow_free\<close>
  below), since an instance attribute of that name would hide the class variable.
\<close>

definition dunder_setattr :: "'v pyinstance \<Rightarrow> string \<Rightarrow> 'v \<Rightarrow> 'v pyinstance \<times> (error + unit)" where
  "dunder_setattr self n val =
     (case class_attr required_parameters (klass self) of
        None \<Rightarrow> (self, Inl (AttributeError ''required_parameters''))
      | Some req \<Rightarrow>
          if n \<in> set req then (object_setattr self n (Val val), Inr ())
          else (self, Inl LookupError))"

definition dunder_delattr :: "'v pyinstance \<Rightarrow> string \<Rightarrow> 'v pyinstance \<times> (error + unit)" where
  "dunder_delattr self n = (self, Inl LookupError)"

text \<open>The loop \<open>for key, value in args.items(): setattr(self, key, value)\<close>.\<close>

fun bind_args :: "'v pyinstance \<Rightarrow> 'v pydict \<Rightarrow> 'v pyinstance \<times> (error + unit)" where
  "bind_args self [] = (self, Inr ())"
| "bind_args self ((key, val) # rest) =
     (case dunder_setattr self key val of
        (self', Inl e) \<Rightarrow> (self', Inl e)
      | (self', Inr u) \<Rightarrow> bind_args self' rest)"

text \<open>
  \<open>__init__\<close>. The state is the contents of the class-level dictionary
  \<open>default_parameters\<close> (\<open>None\<close> when no class declares it) and the instance. With
  defaults declared, \<open>args\<close> is that very dictionary, and \<open>args.update(kwargs)\<close> writes
  into it.
\<close>

definition dunder_init ::
  "'v pyinstance \<Rightarrow> 'v pydict option \<Rightarrow> 'v pydict \<Rightarrow> ('v pydict option \<times> 'v pyinstance) \<times> (error + unit)" where
  "dunder_init self default_parameters kwargs =
     (if \<not> hasattr depname (klass self) then
        ((default_parameters, self), Inl (AssertionError (Text ''Dependence needs a parameter name'')))
      else if \<not> hasattr name (klass self) then
        ((default_parameters, self), Inl (AssertionError (Text ''Dependence classes need a name'')))
      else case class_attr required_parameters (klass self) of
        None \<Rightarrow>
          ((default_parameters, self),
           Inl (AssertionError (Text ''Dependence needs a list of required params'')))
      | Some req \<Rightarrow>
          let (default_parameters', args) =
                (case default_parameters of
                   Some d \<Rightarrow> (Some (dict_update d kwargs), dict_update d kwargs)
                 | None \<Rightarrow> (None, kwargs));
              self1 = (if \<not> hasattr required_conditions (klass self)
                       then object_setattr self ''required_conditions'' EmptyList else self);
              passed_args = sort (dict_keys args);
              expected_args = sort req
          in if passed_args \<noteq> expected_args then
               ((default_parameters', self1),
                Inl (AssertionError (Provided passed_args expected_args)))
             else case bind_args self1 args of
               (self2, r) \<Rightarrow> ((default_parameters', self2), r))"

text \<open>
  The call \<open>C(**kwargs)\<close>: a fresh instance of \<open>C\<close> with an empty \<open>__dict__\<close> is
  initialised; it is returned only when \<open>__init__\<close> raises nothing. The first
  component is the class-level \<open>default_parameters\<close> after the call.
\<close>

definition construct ::
  "pyclass \<Rightarrow> 'v pydict option \<Rightarrow> 'v pydict \<Rightarrow> 'v pydict option \<times> (error + 'v pyinstance)" where
  "construct C default_parameters kwargs =
     (case dunder_init \<lparr>klass = C, attrs = []\<rparr> default_parameters kwargs of
        ((default_parameters', self), Inl e) \<Rightarrow> (default_parameters', Inl e)
      | ((default_parameters', self), Inr u) \<Rightarrow> (default_parameters', Inr self))"

text \<open>
  \<open>__eq__\<close>, and the operator \<open>a == b\<close>. Python's comparison calls the reflected
  method of the right operand first when its type is a proper subclass of the left
  operand's type; \<open>__eq__\<close> is its own reflection and never returns \<open>NotImplemented\<close>
  here, so the first answer is the result.
\<close>

definition dunder_eq :: "('v \<Rightarrow> 'v \<Rightarrow> bool) \<Rightarrow> 'v pyinstance \<Rightarrow> 'v pyinstance \<Rightarrow> bool" where
  "dunder_eq veq self other =
     (if isinstance other (klass self) then dict_eq (obj_eq veq) (attrs self) (attrs other)
      else False)"

definition py_eq :: "('v \<Rightarrow> 'v \<Rightarrow> bool) \<Rightarrow> 'v pyinstance \<Rightarrow> 'v pyinstance \<Rightarrow> bool" where
  "py_eq veq a b =
     (if klass a \<noteq> klass b \<and> issubclass (klass b) (klass a) then dunder_eq veq b a
      else dunder_eq veq a b)"

text \<open>
  \<open>__repr__\<close>. The loop runs over \<open>self.required_parameters\<close> with the string built so
  far; \<open>getattr(self, p)\<close> reads the instance dictionary.
\<close>

fun repr_loop ::
  "('v \<Rightarrow> string) \<Rightarrow> 'v pyinstance \<Rightarrow> string list \<Rightarrow> string list \<Rightarrow> string \<Rightarrow> error + string" where
  "repr_loop vrepr self req [] params = Inr params"
| "repr_loop vrepr self req (p # ps) params =
     (case map_of (attrs self) p of
        None \<Rightarrow> Inl (AttributeError p)
      | Some x \<Rightarrow>
          let params1 = params @ p @ ''='' @ obj_repr vrepr x;
              params2 = (if p \<noteq> last req then params1 @ '', '' else params1)
          in repr_loop vrepr self req ps params2)"

definition dunder_repr :: "('v \<Rightarrow> string) \<Rightarrow> 'v pyinstance \<Rightarrow> error + string" where
  "dunder_repr vrepr self =
     (case class_attr name (klass self) of
        None \<Rightarrow> Inl (AttributeError ''name'')
      | Some nm \<Rightarrow>
          (case (if nm \<noteq> [] then
                   (case class_attr required_parameters (klass self) of
                      None \<Rightarrow> Inl (AttributeError ''required_parameters'')
                    | Some req \<Rightarrow> repr_loop vrepr self req req [])
                 else Inr []) of
             Inl e \<Rightarrow> Inl e
           | Inr params \<Rightarrow> Inr (class_name (klass self) @ ''('' @ params @ '')'')))"

definition dunder_str :: "('v \<Rightarrow> string) \<Rightarrow> 'v pyinstance \<Rightarrow> error + string" where
  "dunder_str vrepr self = dunder_repr vrepr self"

text \<open>\<open>__hash__\<close>: the built-in hash of strings, a parameter, applied to \<open>repr(self)\<close>.\<close>

definition dunder_hash :: "(string \<Rightarrow> int) \<Rightarrow> ('v \<Rightarrow> string) \<Rightarrow> 'v pyinstance \<Rightarrow> error + int" where
  "dunder_hash str_hash vrepr self =
     (case dunder_repr vrepr self of Inl e \<Rightarrow> Inl e | Inr s \<Rightarrow> Inr (str_hash s))"

section \<open>The bound classes (bound.py)\<close>

definition no_decls :: decls where
  "no_decls = \<lparr>depname = None, name = None, required_parameters = None, required_conditions = None\<rparr>"

definition Dependence :: pyclass where
  "Dependence = PyClass ''Dependence'' PyObject no_decls"

definition Bound :: pyclass where
  "Bound = PyClass ''Bound'' Dependence (no_decls\<lparr>depname := Some ''Bound''\<rparr>)"

definition BoundConstant :: pyclass where
  "BoundConstant = PyClass ''BoundConstant'' Bound
     (no_decls\<lparr>name := Some ''constant'', required_parameters := Some [''B'']\<rparr>)"

definition BoundCollapsingLinear :: pyclass where
  "BoundCollapsingLinear = PyClass ''BoundCollapsingLinear'' Bound
     (no_decls\<lparr>name := Some ''collapsing_linear'', required_parameters := Some [''B'', ''t'']\<rparr>)"



section \<open>Notions used to state the properties\<close>

text \<open>
  The parameter values an instance holds, as a map: \<open>getattr(self, p)\<close> restricted to
  the values that were bound as parameters.
\<close>

definition bound_values :: "'v pyinstance \<Rightarrow> string \<Rightarrow> 'v option" where
  "bound_values self p = (case map_of (attrs self) p of Some (Val v) \<Rightarrow> Some v | _ \<Rightarrow> None)"

definition bound_items :: "'v pyinstance \<Rightarrow> string list \<Rightarrow> (string \<times> 'v) list" where
  "bound_items self req =
     concat (map (\<lambda>p. case bound_values self p of Some v \<Rightarrow> [(p, v)] | None \<Rightarrow> []) req)"

text \<open>
  The dictionary \<open>args\<close> of \<open>__init__\<close> (the defaults overlaid by the keyword
  arguments), and the \<open>__dict__\<close> of the instance when the binding loop starts.
\<close>

definition merged :: "'v pydict option \<Rightarrow> 'v pydict \<Rightarrow> 'v pydict" where
  "merged default_parameters kwargs =
     (case default_parameters of Some d \<Rightarrow> dict_update d kwargs | None \<Rightarrow> kwargs)"

definition initial_attrs :: "pyclass \<Rightarrow> 'v pyobj pydict" where
  "initial_attrs C =
     (if hasattr required_conditions C then [] else [(''required_conditions'', EmptyList)])"

text \<open>
  \<open>self.required_conditions\<close>: the instance dictionary first, then the class. The
  result is a parameter value (\<open>Inl\<close>) or a list of condition names (\<open>Inr\<close>).
\<close>

definition getattr_required_conditions :: "'v pyinstance \<Rightarrow> error + ('v + string list)" where
  "getattr_required_conditions self =
     (case map_of (attrs self) ''required_conditions'' of
        Some EmptyList \<Rightarrow> Inr (Inr [])
      | Some (Val v) \<Rightarrow> Inr (Inl v)
      | None \<Rightarrow>
          (case class_attr required_conditions (klass self) of
             Some cs \<Rightarrow> Inr (Inr cs)
           | None \<Rightarrow> Inl (AttributeError ''required_conditions'')))"

text \<open>
  The names of the class variables of the contract. A parameter of such a name would,
  once bound on the instance, hide the class variable from \<open>self.name\<close> and
  \<open>self.required_parameters\<close>; the properties below are about classes without one.
\<close>

definition class_variables :: "string list" where
  "class_variables =
     [''depname'', ''name'', ''required_parameters'', ''default_parameters'', ''required_conditions'']"

definition shadow_free :: "string list \<Rightarrow> bool" where
  "shadow_free req = list_all (\<lambda>p. p \<notin> set class_variables) req"

text \<open>
  A variant: a class that declares (or inherits) \<open>depname\<close>, \<open>name\<close> and the list
  \<open>req\<close> of required parameters, each parameter named once.
\<close>

definition variant :: "pyclass \<Rightarrow> string list \<Rightarrow> bool" where
  "variant C req =
     (hasattr depname C \<and> hasattr name C \<and> class_attr required_parameters C = Some req \<and>
      distinct req \<and> shadow_free req)"

text \<open>
  The state of an instance that construction establishes and that \<open>__setattr__\<close> and
  \<open>__delattr__\<close> keep: the dictionary has one entry for each required parameter, a
  parameter value, and the entry \<open>required_conditions\<close>, the empty list, exactly when
  the class does not declare \<open>required_conditions\<close>.
\<close>

definition own_names :: "pyclass \<Rightarrow> string list \<Rightarrow> string set" where
  "own_names C req =
     set req \<union> (if hasattr required_conditions C then {} else {''required_conditions''})"

definition live :: "'v pyinstance \<Rightarrow> bool" where
  "live self =
     (case class_attr required_parameters (klass self) of
        None \<Rightarrow> False
      | Some req \<Rightarrow>
          variant (klass self) req \<and> is_dict (attrs self) \<and>
          set (dict_keys (attrs self)) = own_names (klass self) req \<and>
          list_all (\<lambda>(k, x). case x of EmptyList \<Rightarrow> k = ''required_conditions''
                                | Val v \<Rightarrow> k \<noteq> ''required_conditions'') (attrs self))"

text \<open>
  A client that tries to set and delete attributes, one request after the other, and
  goes on after each refusal.
\<close>

datatype 'v request = SetAttr string 'v | DelAttr string

fun attempt :: "'v pyinstance \<Rightarrow> 'v request \<Rightarrow> 'v pyinstance \<times> (error + unit)" where
  "attempt self (SetAttr n v) = dunder_setattr self n v"
| "attempt self (DelAttr n) = dunder_delattr self n"

fun attempts :: "'v pyinstance \<Rightarrow> 'v request list \<Rightarrow> 'v pyinstance" where
  "attempts self [] = self"
| "attempts self (r # rs) = attempts (fst (attempt self r)) rs"

text \<open>
  The form of the string as the specification gives it:
  \<open>Name(p1=repr(v1), p2=repr(v2), ...)\<close>.
\<close>

fun comma_join :: "string list \<Rightarrow> string" where
  "comma_join [] = []"
| "comma_join [x] = x"
| "comma_join (x # y # ys) = x @ '', '' @ comma_join (y # ys)"

definition spec_repr :: "('v \<Rightarrow> string) \<Rightarrow> string \<Rightarrow> (string \<times> 'v) list \<Rightarrow> string" where
  "spec_repr vrepr cname items =
     cname @ ''('' @ comma_join (map (\<lambda>(p, v). p @ ''='' @ vrepr v) items) @ '')''"

section \<open>Concrete parameter values\<close>

text \<open>
  Python numbers as parameter values: \<open>bool\<close>, \<open>int\<close> and \<open>float\<close>, a float being given
  by its exact value. \<open>==\<close> compares numbers of different types by value
  (\<open>True == 1 == 1.0\<close>). \<open>repr\<close> of a float is modelled for the integral values up to
  \<open>2 ^ 53\<close>, which print their digits followed by \<open>.0\<close>, and left unspecified elsewhere.
\<close>

datatype pyval = PyBool bool | PyInt int | PyFloat real

fun num_val :: "pyval \<Rightarrow> real" where
  "num_val (PyBool b) = (if b then 1 else 0)"
| "num_val (PyInt i) = of_int i"
| "num_val (PyFloat r) = r"

definition val_eq :: "pyval \<Rightarrow> pyval \<Rightarrow> bool" where
  "val_eq x y = (num_val x = num_val y)"

fun nat_digits :: "nat \<Rightarrow> string" where
  "nat_digits n =
     (if n < 10 then [''0123456789'' ! n]
      else nat_digits (n div 10) @ [''0123456789'' ! (n mod 10)])"

declare nat_digits.simps [simp del]

definition int_repr :: "int \<Rightarrow> string" where
  "int_repr i = (if i < 0 then ''-'' @ nat_digits (nat (- i)) else nat_digits (nat i))"

definition float_repr :: "real \<Rightarrow> string" where
  "float_repr r =
     (if r \<in> \<int> \<and> \<bar>r\<bar> \<le> 2 ^ 53 then int_repr \<lfloor>r\<rfloor> @ ''.0'' else undefined)"

fun val_repr :: "pyval \<Rightarrow> string" where
  "val_repr (PyBool b) = (if b then ''True'' else ''False'')"
| "val_repr (PyInt i) = int_repr i"
| "val_repr (PyFloat r) = float_repr r"

text \<open>
  A variant as the docstring of \<open>Dependence\<close> describes it, with a default for one of
  its parameters: a subclass of \<open>Bound\<close> with \<open>required_parameters = ["B", "t"]\<close> and
  \<open>default_parameters = {"t": 0.1}\<close>. The dictionary is the initial state
  \<open>declared_defaults\<close>.
\<close>

definition BoundWithDefault :: pyclass where
  "BoundWithDefault = PyClass ''BoundWithDefault'' Bound
     (no_decls\<lparr>name := Some ''with_default'', required_parameters := Some [''B'', ''t'']\<rparr>)"

definition declared_defaults :: "real pydict option" where
  "declared_defaults = Some [(''t'', 1 / 10)]"

section \<open>Dictionaries and construction: auxiliary facts\<close>

lemma sort_eq_iff:
  assumes "distinct xs"
  shows "(sort xs = sort ys) = (set xs = set ys \<and> distinct ys)"
proof
  assume h: "sort xs = sort ys"
  have "set xs = set ys" using h by (metis set_sort)
  moreover have "distinct ys" using h assms by (metis distinct_sort)
  ultimately show "set xs = set ys \<and> distinct ys" by simp
next
  assume "set xs = set ys \<and> distinct ys"
  then show "sort xs = sort ys"
    using assms by (intro sorted_distinct_set_unique) simp_all
qed

lemma map_of_rev_dict: "is_dict e \<Longrightarrow> map_of (rev e) = map_of e"
  unfolding is_dict_def dict_keys_def
  by (subst map_of_inject_set) (simp_all add: rev_map [symmetric])

lemma map_of_dict_update_rev:
  "map_of (dict_update d e) = map_of d ++ map_of (rev e)"
  unfolding dict_update_def
  by (induction e arbitrary: d) (auto simp: update_conv' map_add_def fun_eq_iff split: option.splits)

lemma map_of_dict_update: "is_dict e \<Longrightarrow> map_of (dict_update d e) = map_of d ++ map_of e"
  by (simp add: map_of_dict_update_rev map_of_rev_dict)

lemma keys_dict_update:
  "set (dict_keys (dict_update d e)) = set (dict_keys d) \<union> set (dict_keys e)"
  unfolding dict_update_def dict_keys_def
proof (induction e arbitrary: d)
  case Nil
  show ?case by simp
next
  case (Cons a e)
  obtain k v where a: "a = (k, v)" by (cases a)
  show ?case using Cons [of "AList.update k v d"] by (simp add: a dom_update)
qed

lemma is_dict_update: "is_dict d \<Longrightarrow> is_dict (dict_update d e)"
  unfolding dict_update_def is_dict_def dict_keys_def
  by (induction e arbitrary: d) (auto simp: distinct_update)

lemma bind_args_ok:
  "class_attr required_parameters (klass self) = Some req \<Longrightarrow> set (dict_keys args) \<subseteq> set req \<Longrightarrow>
   bind_args self args = (self\<lparr>attrs := dict_update (attrs self) (map (\<lambda>(k, v). (k, Val v)) args)\<rparr>, Inr ())"
  by (induction args arbitrary: self)
     (auto simp: dict_update_def dict_keys_def dunder_setattr_def object_setattr_def)

lemma construct_eq:
  assumes "hasattr depname C" "hasattr name C" "class_attr required_parameters C = Some req"
  shows "construct C dflt kw =
    (map_option (\<lambda>d. dict_update d kw) dflt,
     if sort (dict_keys (merged dflt kw)) = sort req
     then Inr \<lparr>klass = C, attrs = dict_update (initial_attrs C) (map (\<lambda>(k, v). (k, Val v)) (merged dflt kw))\<rparr>
     else Inl (AssertionError (Provided (sort (dict_keys (merged dflt kw))) (sort req))))"
proof (cases "sort (dict_keys (merged dflt kw)) = sort req")
  case False
  then show ?thesis using assms
    by (cases dflt) (simp_all add: construct_def dunder_init_def merged_def Let_def)
next
  case True
  then have sub: "set (dict_keys (merged dflt kw)) \<subseteq> set req" by (metis set_sort subset_refl)
  let ?self1 = "\<lparr>klass = C, attrs = initial_attrs C\<rparr> :: 'a pyinstance"
  have b: "bind_args ?self1 (merged dflt kw) =
    (?self1\<lparr>attrs := dict_update (attrs ?self1) (map (\<lambda>(k, v). (k, Val v)) (merged dflt kw))\<rparr>, Inr ())"
    by (rule bind_args_ok [where req = req]) (simp_all add: assms sub)
  show ?thesis using assms True b
    by (cases dflt; cases "hasattr required_conditions C")
       (simp_all add: construct_def dunder_init_def merged_def Let_def initial_attrs_def
          object_setattr_def)
qed

lemma map_of_Val_items:
  "map_of (map (\<lambda>(k, v). (k, Val v)) args) p = map_option Val (map_of args p)"
  by (induction args) auto

lemma keys_Val_items: "dict_keys (map (\<lambda>(k, v). (k, Val v)) args) = dict_keys args"
  by (simp add: dict_keys_def split_beta)

lemma is_dict_Val_items: "is_dict (map (\<lambda>(k, v). (k, Val v)) args) = is_dict args"
  by (simp add: is_dict_def keys_Val_items)

lemma is_dict_initial_attrs: "is_dict (initial_attrs C)"
  by (simp add: initial_attrs_def is_dict_def dict_keys_def)

lemma map_of_constructed:
  assumes "is_dict args"
  shows "map_of (dict_update (initial_attrs C) (map (\<lambda>(k, v). (k, Val v)) args)) p =
     (case map_of args p of Some v \<Rightarrow> Some (Val v) | None \<Rightarrow> map_of (initial_attrs C) p)"
  using assms
  by (simp add: map_of_dict_update is_dict_Val_items map_of_Val_items map_add_def
      split: option.splits)

lemma bound_values_constructed:
  assumes "is_dict args"
  shows "bound_values \<lparr>klass = C, attrs = dict_update (initial_attrs C) (map (\<lambda>(k, v). (k, Val v)) args)\<rparr>
         = map_of args"
proof
  fix p
  show "bound_values \<lparr>klass = C, attrs = dict_update (initial_attrs C) (map (\<lambda>(k, v). (k, Val v)) args)\<rparr> p
         = map_of args p"
  proof -
    have i: "map_of (initial_attrs C :: 'a pyobj pydict) p = None \<or>
             map_of (initial_attrs C :: 'a pyobj pydict) p = Some EmptyList"
      by (simp add: initial_attrs_def)
    show ?thesis
      unfolding bound_values_def pyinstance.simps map_of_constructed [OF assms]
      using i by (cases "map_of args p") auto
  qed
qed

lemma shadow_free_rc: "shadow_free req \<Longrightarrow> ''required_conditions'' \<notin> set req"
  by (auto simp: shadow_free_def class_variables_def list_all_iff)

lemma live_constructed:
  assumes "variant C req" "is_dict args" "set (dict_keys args) = set req"
  shows "live \<lparr>klass = C, attrs = dict_update (initial_attrs C) (map (\<lambda>(k, v). (k, Val v)) args)\<rparr>"
proof -
  let ?d = "dict_update (initial_attrs C) (map (\<lambda>(k, v). (k, Val v)) args) :: 'a pyobj pydict"
  have req: "class_attr required_parameters C = Some req" using assms(1) by (simp add: variant_def)
  have rc: "''required_conditions'' \<notin> set req"
    using assms(1) by (simp add: variant_def shadow_free_rc)
  have d: "is_dict ?d" by (simp add: is_dict_update is_dict_initial_attrs)
  have "set (dict_keys (initial_attrs C :: 'a pyobj pydict)) =
        (if hasattr required_conditions C then {} else {''required_conditions''})"
    by (simp add: initial_attrs_def dict_keys_def)
  then have k: "set (dict_keys ?d) = own_names C req"
    unfolding keys_dict_update keys_Val_items assms(3) own_names_def by auto
  have e: "list_all (\<lambda>(k, x). case x of EmptyList \<Rightarrow> k = ''required_conditions''
                                | Val v \<Rightarrow> k \<noteq> ''required_conditions'') ?d"
    unfolding list_all_iff
  proof (clarify)
    fix k x assume "(k, x) \<in> set ?d"
    then have m: "map_of ?d k = Some x" using d by (simp add: is_dict_def dict_keys_def)
    have m': "(case map_of args k of Some v \<Rightarrow> Some (Val v)
               | None \<Rightarrow> map_of (initial_attrs C :: 'a pyobj pydict) k) = Some x"
      using m unfolding map_of_constructed [OF assms(2)] .
    show "case x of EmptyList \<Rightarrow> k = ''required_conditions'' | Val v \<Rightarrow> k \<noteq> ''required_conditions''"
    proof (cases "map_of args k")
      case None
      then have "map_of (initial_attrs C :: 'a pyobj pydict) k = Some x" using m' by simp
      then show ?thesis by (simp add: initial_attrs_def split: if_splits)
    next
      case (Some v)
      then have "k \<in> set (dict_keys args)"
        unfolding dict_keys_def by (metis map_of_SomeD fst_conv image_eqI set_map)
      then have "k \<in> set req" using assms(3) by simp
      then show ?thesis using m' Some rc by auto
    qed
  qed
  show ?thesis using req assms(1) d k e by (simp add: live_def)
qed

lemma live_setattr:
  assumes "live self"
  shows "live (fst (dunder_setattr self n v))"
proof -
  obtain req where req: "class_attr required_parameters (klass self) = Some req"
    using assms by (auto simp: live_def split: option.splits)
  show ?thesis
  proof (cases "n \<in> set req")
    case False
    then show ?thesis using assms req by (simp add: dunder_setattr_def)
  next
    case True
    have l: "variant (klass self) req" "is_dict (attrs self)"
      "set (dict_keys (attrs self)) = own_names (klass self) req"
      "list_all (\<lambda>(k, x). case x of EmptyList \<Rightarrow> k = ''required_conditions''
                                | Val v \<Rightarrow> k \<noteq> ''required_conditions'') (attrs self)"
      using assms req by (simp_all add: live_def)
    have rc: "n \<noteq> ''required_conditions''"
      using True l(1) by (auto simp: variant_def dest: shadow_free_rc)
    have sub: "set (AList.update n x al) \<subseteq> insert (n, x) (set al)" for x :: "'a pyobj" and al
      by (induction al) auto
    have k: "set (dict_keys (AList.update n (Val v) (attrs self))) = own_names (klass self) req"
      using l(3) True by (auto simp: dict_keys_def dom_update own_names_def)
    have d: "is_dict (AList.update n (Val v) (attrs self))"
      using l(2) by (simp add: is_dict_def dict_keys_def distinct_update)
    have e: "list_all (\<lambda>(k, x). case x of EmptyList \<Rightarrow> k = ''required_conditions''
                                | Val v \<Rightarrow> k \<noteq> ''required_conditions'')
               (AList.update n (Val v) (attrs self))"
      using l(4) rc sub [of "Val v" "attrs self"] unfolding list_all_iff by auto
    show ?thesis using req True l(1) k d e
      by (simp add: dunder_setattr_def object_setattr_def live_def)
  qed
qed

lemmas class_defs = BoundConstant_def BoundCollapsingLinear_def BoundWithDefault_def Bound_def
  Dependence_def no_decls_def

lemma construct_BoundConstant:
  "construct BoundConstant None [(''B'', v)] =
     (None, Inr \<lparr>klass = BoundConstant,
                 attrs = [(''required_conditions'', EmptyList), (''B'', Val v)]\<rparr>)"
  by (simp add: construct_def dunder_init_def hasattr_def class_defs dict_keys_def
      dunder_setattr_def object_setattr_def Let_def)

lemma variant_BoundConstant: "variant BoundConstant [''B'']"
  by (simp add: variant_def hasattr_def class_defs shadow_free_def class_variables_def)

lemma construct_InrD:
  assumes "construct C dflt kw = (dflt', Inr self)"
  shows "hasattr depname C \<and> hasattr name C \<and>
     (\<exists>req. class_attr required_parameters C = Some req \<and>
            sort (dict_keys (merged dflt kw)) = sort req \<and>
            self = \<lparr>klass = C, attrs = dict_update (initial_attrs C)
                     (map (\<lambda>(k, v). (k, Val v)) (merged dflt kw))\<rparr>)"
proof -
  have d: "hasattr depname C" using assms
    by (auto simp: construct_def dunder_init_def split: if_splits)
  have n: "hasattr name C" using assms d
    by (auto simp: construct_def dunder_init_def split: if_splits)
  obtain req where r: "class_attr required_parameters C = Some req"
    using assms d n by (cases "class_attr required_parameters C")
      (auto simp: construct_def dunder_init_def)
  show ?thesis using construct_eq [OF d n r, of dflt kw] assms d n r
    by (auto split: if_splits)
qed

section \<open>The mutation guard\<close>

text \<open>
  Claim C2. On every constructed instance of a variant, setting an attribute whose
  name is not in \<open>required_parameters\<close> raises \<open>LookupError\<close>, deleting any attribute
  raises \<open>LookupError\<close>, and the instance after the refused call is the instance
  before it. Setting a name that is in \<open>required_parameters\<close> is accepted and rebinds
  that parameter only. (A variant has no parameter named like a class variable, so
  \<open>self.required_parameters\<close> is the class's list.)
\<close>

theorem mutation_guard:
  assumes "variant C req"
    and "construct C default_parameters kwargs = (default_parameters', Inr self)"
  shows "class_attr required_parameters (klass self) = Some req \<and>
     (\<forall>n v. n \<notin> set req \<longrightarrow> dunder_setattr self n v = (self, Inl LookupError)) \<and>
     (\<forall>n. dunder_delattr self n = (self, Inl LookupError)) \<and>
     (\<forall>n v. n \<in> set req \<longrightarrow>
        (\<exists>self'. dunder_setattr self n v = (self', Inr ()) \<and> klass self' = klass self \<and>
                 bound_values self' = (bound_values self)(n \<mapsto> v)))"
proof -
  have r: "class_attr required_parameters C = Some req"
    using assms(1) by (simp add: variant_def)
  have k: "klass self = C"
    using construct_InrD [OF assms(2)] by auto
  have "bound_values (object_setattr self n (Val v)) = (bound_values self)(n \<mapsto> v)" for n v
    by (auto simp: bound_values_def object_setattr_def update_conv' fun_eq_iff)
  then show ?thesis using r k
    by (simp add: dunder_setattr_def dunder_delattr_def object_setattr_def)
qed

theorem mutation_guard_witness:
  "variant BoundConstant [''B''] \<and>
   construct BoundConstant None [(''B'', 1 :: real)] =
     (None, Inr \<lparr>klass = BoundConstant,
                 attrs = [(''required_conditions'', EmptyList), (''B'', Val 1)]\<rparr>) \<and>
   dunder_setattr \<lparr>klass = BoundConstant,
       attrs = [(''required_conditions'', EmptyList), (''B'', Val (1 :: real))]\<rparr> ''extra'' 2 =
     (\<lparr>klass = BoundConstant, attrs = [(''required_conditions'', EmptyList), (''B'', Val 1)]\<rparr>,
      Inl LookupError) \<and>
   dunder_delattr \<lparr>klass = BoundConstant,
       attrs = [(''required_conditions'', EmptyList), (''B'', Val (1 :: real))]\<rparr> ''B'' =
     (\<lparr>klass = BoundConstant, attrs = [(''required_conditions'', EmptyList), (''B'', Val 1)]\<rparr>,
      Inl LookupError) \<and>
   dunder_setattr \<lparr>klass = BoundConstant,
       attrs = [(''required_conditions'', EmptyList), (''B'', Val (1 :: real))]\<rparr> ''B'' 2 =
     (\<lparr>klass = BoundConstant, attrs = [(''required_conditions'', EmptyList), (''B'', Val 2)]\<rparr>,
      Inr ())"
proof -
  let ?self = "\<lparr>klass = BoundConstant,
       attrs = [(''required_conditions'', EmptyList), (''B'', Val (1 :: real))]\<rparr>"
  have v: "variant BoundConstant [''B'']" by (rule variant_BoundConstant)
  have c: "construct BoundConstant None [(''B'', 1 :: real)] = (None, Inr ?self)"
    by (rule construct_BoundConstant)
  have s: "\<forall>n v. n \<notin> set [''B''] \<longrightarrow> dunder_setattr ?self n v = (?self, Inl LookupError)"
    and d: "\<forall>n. dunder_delattr ?self n = (?self, Inl LookupError)"
    and a: "\<forall>n v. n \<in> set [''B''] \<longrightarrow>
        (\<exists>self'. dunder_setattr ?self n v = (self', Inr ()) \<and> klass self' = klass ?self \<and>
                 bound_values self' = (bound_values ?self)(n \<mapsto> v))"
    using mutation_guard [OF v c] by blast+
  have 1: "dunder_setattr ?self ''extra'' 2 = (?self, Inl LookupError)" using s by simp
  obtain self' where 2: "dunder_setattr ?self ''B'' 2 = (self', Inr ())"
    using a by auto
  have "fst (dunder_setattr ?self ''B'' 2) =
     \<lparr>klass = BoundConstant, attrs = [(''required_conditions'', EmptyList), (''B'', Val 2)]\<rparr>"
    by (simp add: dunder_setattr_def object_setattr_def class_defs)
  then have 3: "dunder_setattr ?self ''B'' 2 =
     (\<lparr>klass = BoundConstant, attrs = [(''required_conditions'', EmptyList), (''B'', Val 2)]\<rparr>,
      Inr ())"
    using 2 by simp
  show ?thesis using v c d 1 3 by simp
qed

section \<open>Construction\<close>

lemma is_dict_merged:
  assumes "is_dict kw" "case dflt of None \<Rightarrow> True | Some d \<Rightarrow> is_dict d"
  shows "is_dict (merged dflt kw)"
  using assms by (cases dflt) (simp_all add: merged_def is_dict_update)

lemma map_of_merged:
  assumes "is_dict kw"
  shows "map_of (merged dflt kw) = (case dflt of None \<Rightarrow> Map.empty | Some d \<Rightarrow> map_of d) ++ map_of kw"
  using assms by (cases dflt) (simp_all add: merged_def map_of_dict_update)

lemma keys_merged:
  "set (dict_keys (merged dflt kw)) =
     (case dflt of None \<Rightarrow> {} | Some d \<Rightarrow> set (dict_keys d)) \<union> set (dict_keys kw)"
  by (cases dflt) (simp_all add: merged_def keys_dict_update)

lemma construct_variant:
  assumes "variant C req" "is_dict (merged dflt kw)"
  shows "snd (construct C dflt kw) =
     (if set (dict_keys (merged dflt kw)) = set req
      then Inr \<lparr>klass = C, attrs = dict_update (initial_attrs C) (map (\<lambda>(k, v). (k, Val v)) (merged dflt kw))\<rparr>
      else Inl (AssertionError (Provided (sort (dict_keys (merged dflt kw))) (sort req))))"
proof -
  have "(sort (dict_keys (merged dflt kw)) = sort req) = (set (dict_keys (merged dflt kw)) = set req)"
    using assms by (simp add: sort_eq_iff is_dict_def variant_def)
  then show ?thesis using assms(1) by (simp add: construct_eq variant_def)
qed

lemma construct_success:
  assumes "variant C req" "is_dict kwargs"
    "case default_parameters of None \<Rightarrow> True | Some d \<Rightarrow> is_dict d"
    "set (dict_keys (merged default_parameters kwargs)) = set req"
  shows "\<exists>self. snd (construct C default_parameters kwargs) = Inr self \<and> klass self = C \<and>
                   bound_values self = map_of (merged default_parameters kwargs)"
proof -
  have d: "is_dict (merged default_parameters kwargs)" using assms(2,3) by (rule is_dict_merged)
  show ?thesis using construct_variant [OF assms(1) d] assms(4)
    by (simp add: bound_values_constructed [OF d])
qed

lemma construct_failure:
  assumes "variant C req" "is_dict kwargs"
    "case default_parameters of None \<Rightarrow> True | Some d \<Rightarrow> is_dict d"
    "set (dict_keys (merged default_parameters kwargs)) \<noteq> set req"
  shows "snd (construct C default_parameters kwargs) =
     Inl (AssertionError (Provided (sort (dict_keys (merged default_parameters kwargs))) (sort req)))"
proof -
  have d: "is_dict (merged default_parameters kwargs)" using assms(2,3) by (rule is_dict_merged)
  show ?thesis using construct_variant [OF assms(1) d] assms(4) by simp
qed

lemma merged_exact:
  assumes "is_dict kwargs" "set (dict_keys kwargs) = set req"
    "case default_parameters of None \<Rightarrow> True | Some d \<Rightarrow> set (dict_keys d) \<subseteq> set req"
  shows "set (dict_keys (merged default_parameters kwargs)) = set req"
    and "map_of (merged default_parameters kwargs) = map_of kwargs"
proof -
  show "set (dict_keys (merged default_parameters kwargs)) = set req"
    unfolding keys_merged using assms(2,3) by (cases default_parameters) auto
  show "map_of (merged default_parameters kwargs) = map_of kwargs"
  proof (cases default_parameters)
    case None
    then show ?thesis by (simp add: merged_def)
  next
    case (Some dd)
    have "dom (map_of dd) \<subseteq> dom (map_of kwargs)"
      using assms(2,3) Some by (simp add: dom_map_of_conv_image_fst dict_keys_def)
    then have "map_of dd ++ map_of kwargs = map_of kwargs"
      by (auto simp: map_add_def fun_eq_iff split: option.splits)
    then show ?thesis using map_of_merged [OF assms(1), of default_parameters] Some by simp
  qed
qed

lemma variant_BoundWithDefault: "variant BoundWithDefault [''B'', ''t'']"
  by (simp add: variant_def hasattr_def class_defs shadow_free_def class_variables_def)

text \<open>
  What one call does, in terms of the contents of \<open>default_parameters\<close> when the call
  starts (the declared defaults on the first call only, as the end of this section
  shows): the merged argument names are
  the names in that dictionary together with the keyword arguments' names. The call
  succeeds exactly when these names are the names in \<open>req\<close>, and then the instance
  holds the merged values; when the names differ, it raises the \<open>AssertionError\<close>
  whose message carries the sorted provided names and the sorted expected names.
\<close>

lemma call_succeeds_iff_names_match:
  assumes "variant C req" "is_dict kwargs"
    "case default_parameters of None \<Rightarrow> True | Some d \<Rightarrow> is_dict d"
  shows
    "set (dict_keys (merged default_parameters kwargs)) =
       (case default_parameters of None \<Rightarrow> {} | Some d \<Rightarrow> set (dict_keys d)) \<union>
       set (dict_keys kwargs) \<and>
     map_of (merged default_parameters kwargs) =
       (case default_parameters of None \<Rightarrow> Map.empty | Some d \<Rightarrow> map_of d) ++ map_of kwargs \<and>
     (set (dict_keys (merged default_parameters kwargs)) = set req \<longrightarrow>
        (\<exists>self. snd (construct C default_parameters kwargs) = Inr self \<and> klass self = C \<and>
                bound_values self = map_of (merged default_parameters kwargs))) \<and>
     (set (dict_keys (merged default_parameters kwargs)) \<noteq> set req \<longrightarrow>
        snd (construct C default_parameters kwargs) =
          Inl (AssertionError
                (Provided (sort (dict_keys (merged default_parameters kwargs))) (sort req)))) \<and>
     (set (dict_keys kwargs) = set req \<and>
      (case default_parameters of None \<Rightarrow> True | Some d \<Rightarrow> set (dict_keys d) \<subseteq> set req) \<longrightarrow>
        (\<exists>self. snd (construct C default_parameters kwargs) = Inr self \<and> klass self = C \<and>
                bound_values self = map_of kwargs))"
proof (intro conjI impI)
  show "set (dict_keys (merged default_parameters kwargs)) =
       (case default_parameters of None \<Rightarrow> {} | Some d \<Rightarrow> set (dict_keys d)) \<union>
       set (dict_keys kwargs)"
    by (rule keys_merged)
  show "map_of (merged default_parameters kwargs) =
       (case default_parameters of None \<Rightarrow> Map.empty | Some d \<Rightarrow> map_of d) ++ map_of kwargs"
    using assms(2) by (rule map_of_merged)
  show "\<exists>self. snd (construct C default_parameters kwargs) = Inr self \<and> klass self = C \<and>
                bound_values self = map_of (merged default_parameters kwargs)"
    if "set (dict_keys (merged default_parameters kwargs)) = set req"
    using assms that by (rule construct_success)
  show "snd (construct C default_parameters kwargs) =
          Inl (AssertionError
                (Provided (sort (dict_keys (merged default_parameters kwargs))) (sort req)))"
    if "set (dict_keys (merged default_parameters kwargs)) \<noteq> set req"
    using assms that by (rule construct_failure)
  show "\<exists>self. snd (construct C default_parameters kwargs) = Inr self \<and> klass self = C \<and>
                bound_values self = map_of kwargs"
    if h: "set (dict_keys kwargs) = set req \<and>
      (case default_parameters of None \<Rightarrow> True | Some d \<Rightarrow> set (dict_keys d) \<subseteq> set req)"
  proof -
    have e: "set (dict_keys kwargs) = set req"
      and f: "case default_parameters of None \<Rightarrow> True | Some d \<Rightarrow> set (dict_keys d) \<subseteq> set req"
      using h by simp_all
    show ?thesis
      using construct_success [OF assms merged_exact(1) [OF assms(2) e f]]
        merged_exact(2) [OF assms(2) e f] by simp
  qed
qed

lemma call_succeeds_iff_names_match_example:
  "variant BoundConstant [''B''] \<and> is_dict [(''B'', 1 :: real)] \<and>
   is_dict [(''B'', 1 :: real), (''extra'', 2)] \<and>
   (\<exists>self. snd (construct BoundConstant None [(''B'', 1 :: real)]) = Inr self \<and>
           klass self = BoundConstant \<and> bound_values self = map_of [(''B'', 1)]) \<and>
   snd (construct BoundConstant None [(''B'', 1 :: real), (''extra'', 2)]) =
     Inl (AssertionError (Provided [''B'', ''extra''] [''B'']))"
proof -
  have v: "variant BoundConstant [''B'']" by (rule variant_BoundConstant)
  have d1: "is_dict [(''B'', 1 :: real)]" by (simp add: is_dict_def dict_keys_def)
  have d2: "is_dict [(''B'', 1 :: real), (''extra'', 2)]" by (simp add: is_dict_def dict_keys_def)
  have n: "case (None :: real pydict option) of None \<Rightarrow> True | Some d \<Rightarrow> is_dict d" by simp
  have a: "\<exists>self. snd (construct BoundConstant None [(''B'', 1 :: real)]) = Inr self \<and>
           klass self = BoundConstant \<and> bound_values self = map_of [(''B'', 1)]"
    using call_succeeds_iff_names_match [OF v d1 n]
    by (simp add: merged_def dict_keys_def)
  have b: "snd (construct BoundConstant None [(''B'', 1 :: real), (''extra'', 2)]) =
     Inl (AssertionError (Provided [''B'', ''extra''] [''B'']))"
    using call_succeeds_iff_names_match [OF v d2 n]
    by (simp add: merged_def dict_keys_def)
  show ?thesis using v d1 d2 a b by blast
qed

text \<open>
  With \<open>default_parameters\<close> holding \<open>d\<close> when the constructor is called, and the
  names of \<open>d\<close> and of the keyword arguments together being the required names, the
  call succeeds; a parameter left out of the keyword arguments gets its value in \<open>d\<close>,
  and a parameter given by keyword gets the keyword's value, whether or not \<open>d\<close> has
  it.
\<close>

lemma call_overlays_current_defaults:
  assumes "variant C req" "is_dict kwargs" "is_dict d"
    "set (dict_keys d) \<union> set (dict_keys kwargs) = set req"
  shows "\<exists>self. snd (construct C (Some d) kwargs) = Inr self \<and>
     (\<forall>p v. p \<notin> set (dict_keys kwargs) \<and> map_of d p = Some v \<longrightarrow> bound_values self p = Some v) \<and>
     (\<forall>p v. map_of kwargs p = Some v \<longrightarrow> bound_values self p = Some v)"
proof -
  have k: "set (dict_keys (merged (Some d) kwargs)) = set req"
    using assms(4) by (simp add: keys_merged)
  have i: "case Some d of None \<Rightarrow> True | Some d \<Rightarrow> is_dict d" using assms(3) by simp
  obtain self where s: "snd (construct C (Some d) kwargs) = Inr self"
    and b: "bound_values self = map_of (merged (Some d) kwargs)"
    using construct_success [OF assms(1,2) i k] by blast
  have m: "bound_values self = map_of d ++ map_of kwargs"
    using b map_of_merged [OF assms(2), of "Some d"] by simp
  have "map_of kwargs p = None" if "p \<notin> set (dict_keys kwargs)" for p
    using that by (simp add: map_of_eq_None_iff dict_keys_def)
  then show ?thesis using s m by (auto simp: map_add_def)
qed

lemma call_overlays_current_defaults_example:
  "variant BoundWithDefault [''B'', ''t''] \<and> is_dict [(''B'', 1 :: real)] \<and>
   is_dict [(''B'', 1 :: real), (''t'', 1 / 2)] \<and> is_dict [(''t'', 1 / 10 :: real)] \<and>
   (\<exists>self. snd (construct BoundWithDefault declared_defaults [(''B'', 1)]) = Inr self \<and>
      bound_values self ''t'' = Some (1 / 10) \<and> bound_values self ''B'' = Some 1) \<and>
   (\<exists>self. snd (construct BoundWithDefault declared_defaults [(''B'', 1), (''t'', 1 / 2)]) = Inr self \<and>
      bound_values self ''t'' = Some (1 / 2) \<and> bound_values self ''B'' = Some 1)"
proof -
  have v: "variant BoundWithDefault [''B'', ''t'']" by (rule variant_BoundWithDefault)
  have d1: "is_dict [(''B'', 1 :: real)]" by (simp add: is_dict_def dict_keys_def)
  have d2: "is_dict [(''B'', 1 :: real), (''t'', 1 / 2)]" by (simp add: is_dict_def dict_keys_def)
  have d: "is_dict [(''t'', 1 / 10 :: real)]" by (simp add: is_dict_def dict_keys_def)
  have k1: "set (dict_keys [(''t'', 1 / 10 :: real)]) \<union> set (dict_keys [(''B'', 1 :: real)]) =
      set [''B'', ''t'']"
    by (auto simp: dict_keys_def)
  have k2: "set (dict_keys [(''t'', 1 / 10 :: real)]) \<union>
      set (dict_keys [(''B'', 1 :: real), (''t'', 1 / 2)]) = set [''B'', ''t'']"
    by (auto simp: dict_keys_def)
  have a: "\<exists>self. snd (construct BoundWithDefault declared_defaults [(''B'', 1)]) = Inr self \<and>
      bound_values self ''t'' = Some (1 / 10) \<and> bound_values self ''B'' = Some 1"
  proof -
    obtain self where s: "snd (construct BoundWithDefault (Some [(''t'', 1 / 10)]) [(''B'', 1 :: real)]) = Inr self"
      and p: "\<forall>p v. p \<notin> set (dict_keys [(''B'', 1 :: real)]) \<and> map_of [(''t'', 1 / 10 :: real)] p = Some v
                \<longrightarrow> bound_values self p = Some v"
      and q: "\<forall>p v. map_of [(''B'', 1 :: real)] p = Some v \<longrightarrow> bound_values self p = Some v"
      using call_overlays_current_defaults [OF v d1 d k1] by blast
    have "bound_values self ''t'' = Some (1 / 10)" using p by (simp add: dict_keys_def)
    moreover have "bound_values self ''B'' = Some 1" using q by simp
    ultimately show ?thesis using s by (auto simp: declared_defaults_def)
  qed
  have b: "\<exists>self. snd (construct BoundWithDefault declared_defaults [(''B'', 1), (''t'', 1 / 2)]) = Inr self \<and>
      bound_values self ''t'' = Some (1 / 2) \<and> bound_values self ''B'' = Some 1"
  proof -
    obtain self where s: "snd (construct BoundWithDefault (Some [(''t'', 1 / 10)])
          [(''B'', 1 :: real), (''t'', 1 / 2)]) = Inr self"
      and q: "\<forall>p v. map_of [(''B'', 1 :: real), (''t'', 1 / 2)] p = Some v \<longrightarrow> bound_values self p = Some v"
      using call_overlays_current_defaults [OF v d2 d k2] by blast
    have "bound_values self ''t'' = Some (1 / 2)" using q by simp
    moreover have "bound_values self ''B'' = Some 1" using q by simp
    ultimately show ?thesis using s by (auto simp: declared_defaults_def)
  qed
  show ?thesis using v d1 d2 d a b by blast
qed

text \<open>
  Claim C7 says that construction leaves the class-level \<open>default_parameters\<close> as
  declared. The code does not: \<open>args = self.default_parameters\<close> makes \<open>args\<close> the
  class's own dictionary and \<open>args.update(kwargs)\<close> writes the keyword arguments into
  it. After \<open>BoundWithDefault(B=1, t=0.5)\<close> the defaults are \<open>{"t": 0.5, "B": 1}\<close>;
  the next call \<open>BoundWithDefault(B=3)\<close> leaves \<open>t\<close> out and gets \<open>0.5\<close>, not the declared
  \<open>0.1\<close>; and \<open>BoundWithDefault()\<close> then succeeds without any argument.
\<close>

theorem construction_overwrites_class_defaults:
  "construct BoundWithDefault declared_defaults [(''B'', 1), (''t'', 1 / 2)] =
     (Some [(''t'', 1 / 2), (''B'', 1)],
      Inr \<lparr>klass = BoundWithDefault,
           attrs = [(''required_conditions'', EmptyList), (''t'', Val (1 / 2)), (''B'', Val 1)]\<rparr>) \<and>
   construct BoundWithDefault (Some [(''t'', 1 / 2), (''B'', 1)]) [(''B'', 3)] =
     (Some [(''t'', 1 / 2), (''B'', 3)],
      Inr \<lparr>klass = BoundWithDefault,
           attrs = [(''required_conditions'', EmptyList), (''t'', Val (1 / 2)), (''B'', Val 3)]\<rparr>) \<and>
   construct BoundWithDefault (Some [(''t'', 1 / 2), (''B'', 3)]) [] =
     (Some [(''t'', 1 / 2), (''B'', 3)],
      Inr \<lparr>klass = BoundWithDefault,
           attrs = [(''required_conditions'', EmptyList), (''t'', Val (1 / 2)), (''B'', Val 3)]\<rparr>)"
  by (simp add: construct_def dunder_init_def hasattr_def class_defs dict_keys_def
      dunder_setattr_def object_setattr_def Let_def dict_update_def declared_defaults_def)

text \<open>
  Claim C1 says that keyword arguments whose names are exactly the required names
  always construct an instance, and that merged names that are fewer or more than
  the required names never do. Because \<open>args.update(kwargs)\<close> writes into the class's
  dictionary before the names are checked, neither holds after an earlier call. The
  refused call \<open>BoundWithDefault(B=1, extra=2)\<close> leaves \<open>extra\<close> in the defaults, and
  the call \<open>BoundWithDefault(B=1, t=0.5)\<close>, with exactly the required names, is then
  refused too. And after \<open>BoundWithDefault(B=7)\<close> the call \<open>BoundWithDefault()\<close>, whose
  declared default and keyword names are only \<open>t\<close>, succeeds.
\<close>

theorem earlier_calls_decide_the_name_check:
  "construct BoundWithDefault declared_defaults [(''B'', 1), (''extra'', 2)] =
     (Some [(''t'', 1 / 10), (''B'', 1), (''extra'', 2)],
      Inl (AssertionError (Provided [''B'', ''extra'', ''t''] [''B'', ''t'']))) \<and>
   construct BoundWithDefault (Some [(''t'', 1 / 10), (''B'', 1), (''extra'', 2)])
       [(''B'', 1), (''t'', 1 / 2)] =
     (Some [(''t'', 1 / 2), (''B'', 1), (''extra'', 2)],
      Inl (AssertionError (Provided [''B'', ''extra'', ''t''] [''B'', ''t'']))) \<and>
   construct BoundWithDefault declared_defaults [(''B'', 7)] =
     (Some [(''t'', 1 / 10), (''B'', 7)],
      Inr \<lparr>klass = BoundWithDefault,
           attrs = [(''required_conditions'', EmptyList), (''t'', Val (1 / 10)), (''B'', Val 7)]\<rparr>) \<and>
   construct BoundWithDefault (Some [(''t'', 1 / 10), (''B'', 7)]) [] =
     (Some [(''t'', 1 / 10), (''B'', 7)],
      Inr \<lparr>klass = BoundWithDefault,
           attrs = [(''required_conditions'', EmptyList), (''t'', Val (1 / 10)), (''B'', Val 7)]\<rparr>)"
  by (simp add: construct_def dunder_init_def hasattr_def class_defs dict_keys_def
      dunder_setattr_def object_setattr_def Let_def dict_update_def declared_defaults_def)

text \<open>
  Claim C6 says that a defaulted parameter left out of the call gets the declared
  default. After \<open>BoundWithDefault(B=2, t=0.75)\<close> the call \<open>BoundWithDefault(B=5)\<close>
  leaves \<open>t\<close> out and the instance holds \<open>t = 0.75\<close>, the value of the earlier call,
  not the declared \<open>0.1\<close>. (The value given by keyword, \<open>B = 5\<close>, is the one bound.)
\<close>

theorem omitted_parameter_gets_earlier_override:
  "construct BoundWithDefault declared_defaults [(''B'', 2), (''t'', 3 / 4)] =
     (Some [(''t'', 3 / 4), (''B'', 2)],
      Inr \<lparr>klass = BoundWithDefault,
           attrs = [(''required_conditions'', EmptyList), (''t'', Val (3 / 4)), (''B'', Val 2)]\<rparr>) \<and>
   construct BoundWithDefault (Some [(''t'', 3 / 4), (''B'', 2)]) [(''B'', 5)] =
     (Some [(''t'', 3 / 4), (''B'', 5)],
      Inr \<lparr>klass = BoundWithDefault,
           attrs = [(''required_conditions'', EmptyList), (''t'', Val (3 / 4)), (''B'', Val 5)]\<rparr>) \<and>
   bound_values \<lparr>klass = BoundWithDefault,
       attrs = [(''required_conditions'', EmptyList), (''t'', Val (3 / 4 :: real)), (''B'', Val 5)]\<rparr>
     ''t'' = Some (3 / 4) \<and>
   bound_values \<lparr>klass = BoundWithDefault,
       attrs = [(''required_conditions'', EmptyList), (''t'', Val (3 / 4 :: real)), (''B'', Val 5)]\<rparr>
     ''t'' \<noteq> Some (1 / 10) \<and>
   declared_defaults = Some [(''t'', 1 / 10)]"
  by (simp add: construct_def dunder_init_def hasattr_def class_defs dict_keys_def
      dunder_setattr_def object_setattr_def Let_def dict_update_def declared_defaults_def
      bound_values_def)

section \<open>The linearly collapsing bound\<close>


section \<open>The attributes of an instance\<close>

lemma live_construct:
  assumes "variant C req" "construct C dflt kw = (dflt', Inr self)"
  shows "live self \<and> klass self = C"
proof -
  have r: "class_attr required_parameters C = Some req" and dr: "distinct req"
    using assms(1) by (simp_all add: variant_def)
  have s: "sort (dict_keys (merged dflt kw)) = sort req"
    and e: "self = \<lparr>klass = C, attrs = dict_update (initial_attrs C)
                     (map (\<lambda>(k, v). (k, Val v)) (merged dflt kw))\<rparr>"
    using construct_InrD [OF assms(2)] r by auto
  have "set req = set (dict_keys (merged dflt kw)) \<and> distinct (dict_keys (merged dflt kw))"
    using sort_eq_iff [OF dr, of "dict_keys (merged dflt kw)"] s by simp
  then have "is_dict (merged dflt kw)" "set (dict_keys (merged dflt kw)) = set req"
    by (simp_all add: is_dict_def)
  then show ?thesis using live_constructed [OF assms(1)] e by simp
qed

lemma klass_attempt: "klass (fst (attempt self r)) = klass self"
  by (cases r) (auto simp: dunder_setattr_def dunder_delattr_def object_setattr_def split: option.splits)

lemma live_attempt: "live self \<Longrightarrow> live (fst (attempt self r))"
  by (cases r) (simp_all add: live_setattr dunder_delattr_def)

lemma live_attempts: "live self \<Longrightarrow> live (attempts self rs)"
  by (induction rs arbitrary: self) (simp_all add: live_attempt)

lemma klass_attempts: "klass (attempts self rs) = klass self"
  by (induction rs arbitrary: self) (simp_all add: klass_attempt)

lemma live_facts:
  assumes "live self" "class_attr required_parameters (klass self) = Some req"
  shows "variant (klass self) req" "is_dict (attrs self)"
    "set (dict_keys (attrs self)) = own_names (klass self) req"
    "\<And>k x. (k, x) \<in> set (attrs self) \<Longrightarrow>
       (case x of EmptyList \<Rightarrow> k = ''required_conditions'' | Val v \<Rightarrow> k \<noteq> ''required_conditions'')"
  using assms by (auto simp: live_def list_all_iff)

lemma live_param:
  assumes "live self" "class_attr required_parameters (klass self) = Some req" "p \<in> set req"
  shows "\<exists>v. map_of (attrs self) p = Some (Val v)"
proof -
  note l = live_facts [OF assms(1,2)]
  have "p \<in> set (dict_keys (attrs self))" using l(3) assms(3) by (simp add: own_names_def)
  then obtain x where x: "(p, x) \<in> set (attrs self)" by (auto simp: dict_keys_def)
  have "p \<noteq> ''required_conditions''" using l(1) assms(3) by (auto simp: variant_def dest: shadow_free_rc)
  then obtain v where "x = Val v" using l(4) [OF x] by (cases x) auto
  then show ?thesis using x l(2) by (auto simp: is_dict_def dict_keys_def)
qed

lemma live_other:
  assumes "live self" "class_attr required_parameters (klass self) = Some req"
    "(k, x) \<in> set (attrs self)" "k \<notin> set req"
  shows "k = ''required_conditions'' \<and> x = EmptyList \<and> \<not> hasattr required_conditions (klass self)"
proof -
  note l = live_facts [OF assms(1,2)]
  have "k \<in> own_names (klass self) req" using l(3) assms(3) by (force simp: dict_keys_def)
  then have k: "k = ''required_conditions''" "\<not> hasattr required_conditions (klass self)"
    using assms(4) by (auto simp: own_names_def split: if_splits)
  then show ?thesis using l(4) [OF assms(3)] by (cases x) auto
qed

lemma live_required_conditions:
  assumes "live self"
  shows "getattr_required_conditions self =
     Inr (Inr (case class_attr required_conditions (klass self) of Some cs \<Rightarrow> cs | None \<Rightarrow> []))"
proof -
  obtain req where r: "class_attr required_parameters (klass self) = Some req"
    using assms by (auto simp: live_def split: option.splits)
  note l = live_facts [OF assms r]
  have rc: "''required_conditions'' \<notin> set req" using l(1) by (auto simp: variant_def dest: shadow_free_rc)
  show ?thesis
  proof (cases "class_attr required_conditions (klass self)")
    case None
    then have "''required_conditions'' \<in> set (dict_keys (attrs self))"
      using l(3) by (simp add: own_names_def hasattr_def)
    then obtain x where x: "(''required_conditions'', x) \<in> set (attrs self)"
      by (auto simp: dict_keys_def)
    then have "x = EmptyList" using live_other [OF assms r x rc] by simp
    then have "map_of (attrs self) ''required_conditions'' = Some EmptyList"
      using x l(2) by (auto simp: is_dict_def dict_keys_def)
    then show ?thesis using None by (simp add: getattr_required_conditions_def)
  next
    case (Some cs)
    then have "''required_conditions'' \<notin> set (dict_keys (attrs self))"
      using l(3) rc by (simp add: own_names_def hasattr_def)
    then have "map_of (attrs self) ''required_conditions'' = None"
      by (simp add: map_of_eq_None_iff dict_keys_def)
    then show ?thesis using Some by (simp add: getattr_required_conditions_def)
  qed
qed

lemma construct_BoundCollapsingLinear:
  "construct BoundCollapsingLinear None [(''B'', b), (''t'', s)] =
     (None, Inr \<lparr>klass = BoundCollapsingLinear,
           attrs = [(''required_conditions'', EmptyList), (''B'', Val b), (''t'', Val s)]\<rparr>)"
  by (simp add: construct_def dunder_init_def hasattr_def class_defs dict_keys_def
      dunder_setattr_def object_setattr_def Let_def)

lemma variant_BoundCollapsingLinear: "variant BoundCollapsingLinear [''B'', ''t'']"
  by (simp add: variant_def hasattr_def class_defs shadow_free_def class_variables_def)

text \<open>
  Claim C10. An instance that construction returns, and that a client then tries to
  change in any way through \<open>__setattr__\<close> and \<open>__delattr__\<close>, has in its dictionary
  exactly the required parameters, each bound to a parameter value, and, when the
  class does not declare \<open>required_conditions\<close>, the entry \<open>required_conditions\<close> bound
  to the empty list; \<open>self.required_conditions\<close> is that empty list or else the
  class's declaration.
\<close>

theorem instance_attributes:
  assumes "variant C req" "construct C default_parameters kwargs = (default_parameters', Inr self)"
  shows "\<forall>rs. klass (attempts self rs) = C \<and>
     set (dict_keys (attrs (attempts self rs))) =
       set req \<union> (if hasattr required_conditions C then {} else {''required_conditions''}) \<and>
     (\<forall>p \<in> set req. \<exists>v. map_of (attrs (attempts self rs)) p = Some (Val v)) \<and>
     (\<not> hasattr required_conditions C \<longrightarrow>
        map_of (attrs (attempts self rs)) ''required_conditions'' = Some EmptyList) \<and>
     getattr_required_conditions (attempts self rs) =
       Inr (Inr (case class_attr required_conditions C of Some cs \<Rightarrow> cs | None \<Rightarrow> []))"
proof
  fix rs
  let ?s = "attempts self rs"
  have l: "live ?s" and k: "klass ?s = C"
    using live_construct [OF assms] by (simp_all add: live_attempts klass_attempts)
  have r: "class_attr required_parameters (klass ?s) = Some req"
    using assms(1) k by (simp add: variant_def)
  have rc: "''required_conditions'' \<notin> set req" using assms(1) by (auto simp: variant_def dest: shadow_free_rc)
  have g: "getattr_required_conditions ?s =
       Inr (Inr (case class_attr required_conditions C of Some cs \<Rightarrow> cs | None \<Rightarrow> []))"
    using live_required_conditions [OF l] k by simp
  have e: "map_of (attrs ?s) ''required_conditions'' = Some EmptyList"
    if "\<not> hasattr required_conditions C"
    using g k that by (auto simp: getattr_required_conditions_def hasattr_def split: option.splits pyobj.splits)
  show "klass ?s = C \<and>
     set (dict_keys (attrs ?s)) =
       set req \<union> (if hasattr required_conditions C then {} else {''required_conditions''}) \<and>
     (\<forall>p \<in> set req. \<exists>v. map_of (attrs ?s) p = Some (Val v)) \<and>
     (\<not> hasattr required_conditions C \<longrightarrow>
        map_of (attrs ?s) ''required_conditions'' = Some EmptyList) \<and>
     getattr_required_conditions ?s =
       Inr (Inr (case class_attr required_conditions C of Some cs \<Rightarrow> cs | None \<Rightarrow> []))"
    using k g e live_facts(3) [OF l r] live_param [OF l r] by (simp add: own_names_def)
qed

theorem instance_attributes_witness:
  "variant BoundConstant [''B''] \<and>
   construct BoundConstant None [(''B'', 1 :: real)] =
     (None, Inr \<lparr>klass = BoundConstant,
                 attrs = [(''required_conditions'', EmptyList), (''B'', Val 1)]\<rparr>) \<and>
   \<not> hasattr required_conditions BoundConstant \<and>
   set (dict_keys (attrs (attempts \<lparr>klass = BoundConstant,
          attrs = [(''required_conditions'', EmptyList), (''B'', Val (1 :: real))]\<rparr>
        [SetAttr ''extra'' 5, DelAttr ''B'', SetAttr ''B'' 2]))) = {''B'', ''required_conditions''} \<and>
   map_of (attrs (attempts \<lparr>klass = BoundConstant,
          attrs = [(''required_conditions'', EmptyList), (''B'', Val (1 :: real))]\<rparr>
        [SetAttr ''extra'' 5, DelAttr ''B'', SetAttr ''B'' 2])) ''required_conditions'' = Some EmptyList"
proof -
  have h: "\<not> hasattr required_conditions BoundConstant" by (simp add: hasattr_def class_defs)
  show ?thesis
    using instance_attributes [OF variant_BoundConstant construct_BoundConstant [of "1 :: real"],
        THEN spec, of "[SetAttr ''extra'' 5, DelAttr ''B'', SetAttr ''B'' 2]"]
      variant_BoundConstant construct_BoundConstant [of "1 :: real"] h
    by (simp add: insert_commute)
qed

section \<open>Equality\<close>

lemma mro_size: "D \<in> set (mro C) \<Longrightarrow> D = C \<or> size D < size C"
  by (induction C) auto

lemma issubclass_refl: "issubclass C C"
  by (cases C) (simp_all add: issubclass_def)

lemma issubclass_antisym: "issubclass C D \<Longrightarrow> issubclass D C \<Longrightarrow> C = D"
  unfolding issubclass_def using mro_size [of D C] mro_size [of C D] by auto

text \<open>
  The method alone accepts an instance of a subclass of its own class; the operator,
  which asks the subclass instance first, does not.
\<close>

lemma dunder_eq_iff:
  "dunder_eq veq a b =
     (issubclass (klass b) (klass a) \<and> dict_eq (obj_eq veq) (attrs a) (attrs b))"
  by (simp add: dunder_eq_def isinstance_def)

lemma py_eq_iff:
  "py_eq veq a b = (klass a = klass b \<and> dict_eq (obj_eq veq) (attrs a) (attrs b))"
proof (cases "klass a = klass b")
  case True
  then show ?thesis by (simp add: py_eq_def dunder_eq_def isinstance_def issubclass_refl)
next
  case False
  show ?thesis
  proof (cases "issubclass (klass b) (klass a)")
    case True
    then have "\<not> issubclass (klass a) (klass b)" using False issubclass_antisym by blast
    then show ?thesis using False True by (simp add: py_eq_def dunder_eq_def isinstance_def)
  next
    case n: False
    then show ?thesis using False by (simp add: py_eq_def dunder_eq_def isinstance_def)
  qed
qed

lemma dict_eq_live:
  assumes "live a" "live b" "klass a = klass b"
    "class_attr required_parameters (klass a) = Some req"
  shows "dict_eq (obj_eq veq) (attrs a) (attrs b) =
     (\<forall>p \<in> set req. case (bound_values a p, bound_values b p) of
                        (Some x, Some y) \<Rightarrow> veq x y | _ \<Rightarrow> False)"
proof -
  have rb: "class_attr required_parameters (klass b) = Some req" using assms(3,4) by simp
  note la = live_facts [OF assms(1,4)] and lb = live_facts [OF assms(2) rb]
  have "card (set (dict_keys (attrs a))) = card (set (dict_keys (attrs b)))"
    using la(3) lb(3) assms(3) by simp
  then have len: "length (attrs a) = length (attrs b)"
    using distinct_card [of "dict_keys (attrs a)"] distinct_card [of "dict_keys (attrs b)"]
      la(2) lb(2) by (simp add: is_dict_def dict_keys_def)
  have item: "(case map_of (attrs b) k of None \<Rightarrow> False | Some y \<Rightarrow> obj_eq veq x y) =
      (k \<in> set req \<longrightarrow> (case (bound_values a k, bound_values b k) of
                        (Some x, Some y) \<Rightarrow> veq x y | _ \<Rightarrow> False))"
    if kx: "(k, x) \<in> set (attrs a)" for k x
  proof (cases "k \<in> set req")
    case True
    obtain v where v: "map_of (attrs a) k = Some (Val v)" using live_param [OF assms(1,4) True] by blast
    obtain w where w: "map_of (attrs b) k = Some (Val w)" using live_param [OF assms(2) rb True] by blast
    have "x = Val v" using kx v la(2) by (auto simp: is_dict_def dict_keys_def)
    then show ?thesis using True v w by (simp add: bound_values_def)
  next
    case False
    have o: "k = ''required_conditions''" "x = EmptyList" "\<not> hasattr required_conditions (klass a)"
      using live_other [OF assms(1,4) kx False] by simp_all
    then have "k \<in> set (dict_keys (attrs b))" using lb(3) assms(3) by (simp add: own_names_def)
    then obtain y where y: "(k, y) \<in> set (attrs b)" by (auto simp: dict_keys_def)
    then have "y = EmptyList" using live_other [OF assms(2) rb y False] by simp
    then have "map_of (attrs b) k = Some EmptyList"
      using y lb(2) by (auto simp: is_dict_def dict_keys_def)
    then show ?thesis using False o by simp
  qed
  have "list_all (\<lambda>(k, x). case map_of (attrs b) k of None \<Rightarrow> False | Some y \<Rightarrow> obj_eq veq x y) (attrs a) =
     (\<forall>p \<in> set req. case (bound_values a p, bound_values b p) of
                        (Some x, Some y) \<Rightarrow> veq x y | _ \<Rightarrow> False)"
  proof
    assume h: "list_all (\<lambda>(k, x). case map_of (attrs b) k of None \<Rightarrow> False | Some y \<Rightarrow> obj_eq veq x y) (attrs a)"
    show "\<forall>p \<in> set req. case (bound_values a p, bound_values b p) of
                        (Some x, Some y) \<Rightarrow> veq x y | _ \<Rightarrow> False"
    proof
      fix p assume p: "p \<in> set req"
      obtain v where v: "map_of (attrs a) p = Some (Val v)" using live_param [OF assms(1,4) p] by blast
      then have m: "(p, Val v) \<in> set (attrs a)" by (rule map_of_SomeD)
      then have "case map_of (attrs b) p of None \<Rightarrow> False | Some y \<Rightarrow> obj_eq veq (Val v) y"
        using h by (auto simp: list_all_iff)
      then show "case (bound_values a p, bound_values b p) of (Some x, Some y) \<Rightarrow> veq x y | _ \<Rightarrow> False"
        using item [OF m] p by simp
    qed
  next
    assume h: "\<forall>p \<in> set req. case (bound_values a p, bound_values b p) of
                        (Some x, Some y) \<Rightarrow> veq x y | _ \<Rightarrow> False"
    show "list_all (\<lambda>(k, x). case map_of (attrs b) k of None \<Rightarrow> False | Some y \<Rightarrow> obj_eq veq x y) (attrs a)"
      unfolding list_all_iff using item h by auto
  qed
  then show ?thesis using len by (simp add: dict_eq_def)
qed

text \<open>
  Claim C3. Two live instances compare equal with \<open>==\<close> exactly when they have the
  same class and the values of every required parameter compare equal; instances of
  two different classes, one a subclass of the other or not, are not equal. (Live
  instances are those that construction returns, \<open>live_construct\<close>, and that the
  guarded operations keep, \<open>live_attempts\<close>.)
\<close>

theorem equality_is_exact_type_and_values:
  assumes "live a" "live b" "class_attr required_parameters (klass a) = Some req"
  shows "py_eq veq a b =
     (klass a = klass b \<and>
      (\<forall>p \<in> set req. case (bound_values a p, bound_values b p) of
                        (Some x, Some y) \<Rightarrow> veq x y | _ \<Rightarrow> False)) \<and>
     (klass a \<noteq> klass b \<longrightarrow> \<not> py_eq veq a b)"
  using dict_eq_live [OF assms(1,2) _ assms(3), of veq] by (auto simp: py_eq_iff)

theorem equality_is_exact_type_and_values_witness:
  "live \<lparr>klass = BoundConstant, attrs = [(''required_conditions'', EmptyList), (''B'', Val (1 :: real))]\<rparr> \<and>
   live \<lparr>klass = BoundConstant, attrs = [(''required_conditions'', EmptyList), (''B'', Val (2 :: real))]\<rparr> \<and>
   live \<lparr>klass = BoundCollapsingLinear,
      attrs = [(''required_conditions'', EmptyList), (''B'', Val (1 :: real)), (''t'', Val 0)]\<rparr> \<and>
   class_attr required_parameters BoundConstant = Some [''B''] \<and>
   py_eq (=) \<lparr>klass = BoundConstant, attrs = [(''required_conditions'', EmptyList), (''B'', Val (1 :: real))]\<rparr>
     \<lparr>klass = BoundConstant, attrs = [(''required_conditions'', EmptyList), (''B'', Val 1)]\<rparr> \<and>
   \<not> py_eq (=) \<lparr>klass = BoundConstant, attrs = [(''required_conditions'', EmptyList), (''B'', Val (1 :: real))]\<rparr>
     \<lparr>klass = BoundConstant, attrs = [(''required_conditions'', EmptyList), (''B'', Val 2)]\<rparr> \<and>
   \<not> py_eq (=) \<lparr>klass = BoundConstant, attrs = [(''required_conditions'', EmptyList), (''B'', Val (1 :: real))]\<rparr>
     \<lparr>klass = BoundCollapsingLinear,
      attrs = [(''required_conditions'', EmptyList), (''B'', Val 1), (''t'', Val 0)]\<rparr>"
proof -
  let ?a = "\<lparr>klass = BoundConstant, attrs = [(''required_conditions'', EmptyList), (''B'', Val (1 :: real))]\<rparr>"
  let ?b = "\<lparr>klass = BoundConstant, attrs = [(''required_conditions'', EmptyList), (''B'', Val (2 :: real))]\<rparr>"
  let ?c = "\<lparr>klass = BoundCollapsingLinear,
      attrs = [(''required_conditions'', EmptyList), (''B'', Val (1 :: real)), (''t'', Val 0)]\<rparr>"
  have la: "live ?a"
    using live_construct [OF variant_BoundConstant construct_BoundConstant [of "1 :: real"]] by simp
  have lb: "live ?b"
    using live_construct [OF variant_BoundConstant construct_BoundConstant [of "2 :: real"]] by simp
  have lc: "live ?c"
    using live_construct [OF variant_BoundCollapsingLinear
        construct_BoundCollapsingLinear [of "1 :: real" 0]] by simp
  have r: "class_attr required_parameters (klass ?a) = Some [''B'']" by (simp add: class_defs)
  have ne: "BoundConstant \<noteq> BoundCollapsingLinear" by (simp add: class_defs)
  have 1: "py_eq (=) ?a ?a"
    using equality_is_exact_type_and_values [OF la la r, of "(=)"] by (simp add: bound_values_def)
  have 2: "\<not> py_eq (=) ?a ?b"
    using equality_is_exact_type_and_values [OF la lb r, of "(=)"] by (simp add: bound_values_def)
  have 3: "\<not> py_eq (=) ?a ?c"
    using equality_is_exact_type_and_values [OF la lc r, of "(=)"] ne by simp
  show ?thesis using la lb lc r 1 2 3 by simp
qed

section \<open>String form and hash\<close>

lemma bound_items_live:
  assumes "\<forall>p \<in> set ps. \<exists>v. map_of (attrs self) p = Some (Val v)"
  shows "map fst (bound_items self ps) = ps"
  using assms by (induction ps) (auto simp: bound_items_def bound_values_def)

lemma bound_items_Cons:
  "map_of (attrs self) p = Some (Val v) \<Longrightarrow> bound_items self (p # ps) = (p, v) # bound_items self ps"
  by (simp add: bound_items_def bound_values_def)

lemma comma_join_Cons:
  "ys \<noteq> [] \<Longrightarrow> comma_join (x # map f ys) = x @ '', '' @ comma_join (map f ys)"
  by (cases ys) simp_all

lemma repr_loop_live:
  assumes "\<forall>p \<in> set ps. \<exists>v. map_of (attrs self) p = Some (Val v)" "distinct ps"
    "ps \<noteq> [] \<longrightarrow> last ps = last req"
  shows "repr_loop vrepr self req ps acc =
     Inr (acc @ comma_join (map (\<lambda>(p, v). p @ ''='' @ vrepr v) (bound_items self ps)))"
  using assms
proof (induction ps arbitrary: acc)
  case Nil
  show ?case by (simp add: bound_items_def)
next
  case (Cons p ps)
  obtain v where v: "map_of (attrs self) p = Some (Val v)" using Cons.prems(1) by auto
  have b: "\<forall>p \<in> set ps. \<exists>v. map_of (attrs self) p = Some (Val v)" using Cons.prems(1) by simp
  show ?case
  proof (cases "ps = []")
    case True
    then have "p = last req" using Cons.prems(3) by simp
    then show ?thesis using True v by (simp add: bound_items_def bound_values_def)
  next
    case False
    then have l: "last ps = last req" using Cons.prems(3) by simp
    then have "last req \<in> set ps" using False by (metis last_in_set)
    then have ne: "p \<noteq> last req" using Cons.prems(2) by auto
    have n: "bound_items self ps \<noteq> []"
      using bound_items_live [OF b] False by auto
    have ih: "repr_loop vrepr self req ps (acc @ p @ ''='' @ vrepr v @ '', '') =
       Inr ((acc @ p @ ''='' @ vrepr v @ '', '') @
            comma_join (map (\<lambda>(p, v). p @ ''='' @ vrepr v) (bound_items self ps)))"
      using Cons.IH [OF b] Cons.prems(2) l False by simp
    show ?thesis using v ne ih by (simp add: bound_items_Cons comma_join_Cons [OF n])
  qed
qed

lemma dunder_repr_live:
  assumes "live self" "class_attr required_parameters (klass self) = Some req"
    "class_attr name (klass self) = Some nm" "nm \<noteq> []"
  shows "dunder_repr vrepr self = Inr (spec_repr vrepr (class_name (klass self)) (bound_items self req))"
proof -
  have b: "\<forall>p \<in> set req. \<exists>v. map_of (attrs self) p = Some (Val v)"
    using live_param [OF assms(1,2)] by blast
  have d: "distinct req" using live_facts(1) [OF assms(1,2)] by (simp add: variant_def)
  have "repr_loop vrepr self req req [] =
     Inr ([] @ comma_join (map (\<lambda>(p, v). p @ ''='' @ vrepr v) (bound_items self req)))"
    by (rule repr_loop_live) (simp_all add: b d)
  then show ?thesis using assms(2,3,4) by (simp add: dunder_repr_def spec_repr_def)
qed

lemma bound_items_values:
  "(p, v) \<in> set (bound_items self req) \<Longrightarrow> bound_values self p = Some v"
  by (auto simp: bound_items_def split: option.splits)

lemma digits_1: "nat_digits (Suc 0) = ''1''"
  by (subst nat_digits.simps) simp

lemma val_repr_int_1: "int_repr 1 = ''1''"
  by (simp add: int_repr_def digits_1)

lemma val_repr_float_1: "float_repr 1 = ''1.0''"
  by (simp add: float_repr_def int_repr_def digits_1)

lemma dunder_repr_BoundConstant:
  "dunder_repr vrepr \<lparr>klass = BoundConstant,
       attrs = [(''required_conditions'', EmptyList), (''B'', Val v)]\<rparr> =
     Inr (''BoundConstant(B='' @ vrepr v @ '')'')"
  by (simp add: dunder_repr_def class_defs)

text \<open>
  Claim C5. For a live instance of a class with a non-empty \<open>name\<close>, \<open>repr\<close> and \<open>str\<close>
  are the class name followed, in parentheses, by \<open>p=repr(v)\<close> for each required
  parameter \<open>p\<close> in the order of \<open>required_parameters\<close>, \<open>v\<close> being the value bound to
  \<open>p\<close>, separated by a comma and a space. \<open>BoundConstant(B=1.0)\<close> renders as
  \<open>BoundConstant(B=1.0)\<close>.
\<close>

theorem repr_has_declared_form:
  assumes "live self" "class_attr required_parameters (klass self) = Some req"
    "class_attr name (klass self) = Some nm" "nm \<noteq> []"
  shows "dunder_repr vrepr self =
       Inr (spec_repr vrepr (class_name (klass self)) (bound_items self req)) \<and>
     dunder_str vrepr self = dunder_repr vrepr self \<and>
     map fst (bound_items self req) = req \<and>
     (\<forall>(p, v) \<in> set (bound_items self req). bound_values self p = Some v) \<and>
     (\<exists>c. construct BoundConstant None [(''B'', PyFloat 1)] = (None, Inr c) \<and>
          dunder_repr val_repr c = Inr ''BoundConstant(B=1.0)'')"
proof -
  have b: "\<forall>p \<in> set req. \<exists>v. map_of (attrs self) p = Some (Val v)"
    using live_param [OF assms(1,2)] by blast
  have "dunder_repr val_repr \<lparr>klass = BoundConstant,
       attrs = [(''required_conditions'', EmptyList), (''B'', Val (PyFloat 1))]\<rparr> =
     Inr ''BoundConstant(B=1.0)''"
    by (simp add: dunder_repr_BoundConstant val_repr_float_1)
  then have c: "\<exists>c. construct BoundConstant None [(''B'', PyFloat 1)] = (None, Inr c) \<and>
          dunder_repr val_repr c = Inr ''BoundConstant(B=1.0)''"
    by (simp add: construct_BoundConstant)
  show ?thesis
    using dunder_repr_live [OF assms, of vrepr] bound_items_live [OF b] c
    by (auto simp: dunder_str_def dest: bound_items_values)
qed

theorem repr_has_declared_form_witness:
  "live \<lparr>klass = BoundCollapsingLinear,
      attrs = [(''required_conditions'', EmptyList), (''B'', Val (PyFloat 1)), (''t'', Val (PyInt 1))]\<rparr> \<and>
   class_attr required_parameters BoundCollapsingLinear = Some [''B'', ''t''] \<and>
   class_attr name BoundCollapsingLinear = Some ''collapsing_linear'' \<and>
   dunder_repr val_repr \<lparr>klass = BoundCollapsingLinear,
      attrs = [(''required_conditions'', EmptyList), (''B'', Val (PyFloat 1)), (''t'', Val (PyInt 1))]\<rparr> =
     Inr ''BoundCollapsingLinear(B=1.0, t=1)''"
proof -
  let ?c = "\<lparr>klass = BoundCollapsingLinear,
      attrs = [(''required_conditions'', EmptyList), (''B'', Val (PyFloat 1)), (''t'', Val (PyInt 1))]\<rparr>"
  have l: "live ?c"
    using live_construct [OF variant_BoundCollapsingLinear
        construct_BoundCollapsingLinear [of "PyFloat 1" "PyInt 1"]] by simp
  have r: "class_attr required_parameters (klass ?c) = Some [''B'', ''t'']" by (simp add: class_defs)
  have n: "class_attr name (klass ?c) = Some ''collapsing_linear''" by (simp add: class_defs)
  have i: "bound_items ?c [''B'', ''t''] = [(''B'', PyFloat 1), (''t'', PyInt 1)]"
    by (simp add: bound_items_def bound_values_def)
  have c: "class_name (klass ?c) = ''BoundCollapsingLinear''" by (simp add: class_defs)
  have "dunder_repr val_repr ?c = Inr ''BoundCollapsingLinear(B=1.0, t=1)''"
    using repr_has_declared_form [OF l r n, of val_repr] unfolding i c
    by (simp add: spec_repr_def val_repr_float_1 val_repr_int_1)
  then show ?thesis using l r n by simp
qed

text \<open>
  Claim C4 says that instances that are equal have the same string and the same hash.
  The instances \<open>BoundConstant(B=1)\<close> and \<open>BoundConstant(B=1.0)\<close> are equal, since
  \<open>1 == 1.0\<close>, and their strings differ.
\<close>

theorem equal_instances_with_different_strings:
  "construct BoundConstant None [(''B'', PyInt 1)] =
     (None, Inr \<lparr>klass = BoundConstant,
                 attrs = [(''required_conditions'', EmptyList), (''B'', Val (PyInt 1))]\<rparr>) \<and>
   construct BoundConstant None [(''B'', PyFloat 1)] =
     (None, Inr \<lparr>klass = BoundConstant,
                 attrs = [(''required_conditions'', EmptyList), (''B'', Val (PyFloat 1))]\<rparr>) \<and>
   py_eq val_eq
     \<lparr>klass = BoundConstant, attrs = [(''required_conditions'', EmptyList), (''B'', Val (PyInt 1))]\<rparr>
     \<lparr>klass = BoundConstant, attrs = [(''required_conditions'', EmptyList), (''B'', Val (PyFloat 1))]\<rparr> \<and>
   dunder_str val_repr
     \<lparr>klass = BoundConstant, attrs = [(''required_conditions'', EmptyList), (''B'', Val (PyInt 1))]\<rparr> =
     Inr ''BoundConstant(B=1)'' \<and>
   dunder_str val_repr
     \<lparr>klass = BoundConstant, attrs = [(''required_conditions'', EmptyList), (''B'', Val (PyFloat 1))]\<rparr> =
     Inr ''BoundConstant(B=1.0)'' \<and>
   dunder_str val_repr
     \<lparr>klass = BoundConstant, attrs = [(''required_conditions'', EmptyList), (''B'', Val (PyInt 1))]\<rparr> \<noteq>
   dunder_str val_repr
     \<lparr>klass = BoundConstant, attrs = [(''required_conditions'', EmptyList), (''B'', Val (PyFloat 1))]\<rparr>"
proof -
  have e: "py_eq val_eq
     \<lparr>klass = BoundConstant, attrs = [(''required_conditions'', EmptyList), (''B'', Val (PyInt 1))]\<rparr>
     \<lparr>klass = BoundConstant, attrs = [(''required_conditions'', EmptyList), (''B'', Val (PyFloat 1))]\<rparr>"
    by (simp add: py_eq_iff dict_eq_def val_eq_def)
  show ?thesis
    using e by (simp add: construct_BoundConstant dunder_str_def dunder_repr_BoundConstant
        val_repr_int_1 val_repr_float_1)
qed

lemma repr_loop_cong:
  assumes "\<forall>p \<in> set ps. map_option (obj_repr vrepr) (map_of (attrs a) p) =
                        map_option (obj_repr vrepr) (map_of (attrs b) p)"
  shows "repr_loop vrepr a req ps acc = repr_loop vrepr b req ps acc"
  using assms
proof (induction ps arbitrary: acc)
  case Nil
  show ?case by simp
next
  case (Cons p ps)
  have h: "map_option (obj_repr vrepr) (map_of (attrs a) p) =
           map_option (obj_repr vrepr) (map_of (attrs b) p)" using Cons.prems by simp
  have ih: "repr_loop vrepr a req ps acc' = repr_loop vrepr b req ps acc'" for acc'
    using Cons.IH Cons.prems by simp
  show ?case using h ih
    by (cases "map_of (attrs a) p"; cases "map_of (attrs b) p") (simp_all add: Let_def)
qed

text \<open>
  Claim C4, amended. The hash is the string hash of the rendered string. Where
  parameter values that compare equal have the same \<open>repr\<close>, two live instances that
  are equal have the same string and the same hash.
\<close>

theorem equal_instances_render_and_hash_alike:
  assumes "live a" "live b" "py_eq veq a b" "\<forall>x y. veq x y \<longrightarrow> vrepr x = vrepr y"
  shows "dunder_str vrepr a = dunder_str vrepr b \<and>
     dunder_hash str_hash vrepr a = dunder_hash str_hash vrepr b \<and>
     dunder_hash str_hash vrepr a =
       (case dunder_str vrepr a of Inl e \<Rightarrow> Inl e | Inr s \<Rightarrow> Inr (str_hash s))"
proof -
  obtain req where r: "class_attr required_parameters (klass a) = Some req"
    using assms(1) by (auto simp: live_def split: option.splits)
  have k: "klass a = klass b" using assms(3) by (simp add: py_eq_iff)
  have rb: "class_attr required_parameters (klass b) = Some req" using r k by simp
  have v: "\<forall>p \<in> set req. case (bound_values a p, bound_values b p) of
                        (Some x, Some y) \<Rightarrow> veq x y | _ \<Rightarrow> False"
    using assms(3) dict_eq_live [OF assms(1,2) k r, of veq] by (simp add: py_eq_iff)
  have "map_option (obj_repr vrepr) (map_of (attrs a) p) =
        map_option (obj_repr vrepr) (map_of (attrs b) p)" if p: "p \<in> set req" for p
  proof -
    obtain x where x: "map_of (attrs a) p = Some (Val x)" using live_param [OF assms(1) r p] by blast
    obtain y where y: "map_of (attrs b) p = Some (Val y)" using live_param [OF assms(2) rb p] by blast
    have "veq x y" using v p x y by (auto simp: bound_values_def)
    then show ?thesis using x y assms(4) by simp
  qed
  then have e: "repr_loop vrepr a req req [] = repr_loop vrepr b req req []"
    by (intro repr_loop_cong) simp
  have "dunder_repr vrepr a = dunder_repr vrepr b"
    by (simp only: dunder_repr_def k rb option.case e)
  then show ?thesis by (simp add: dunder_str_def dunder_hash_def)
qed

theorem equal_instances_render_and_hash_alike_witness:
  "live \<lparr>klass = BoundConstant, attrs = [(''required_conditions'', EmptyList), (''B'', Val (1 :: int))]\<rparr> \<and>
   py_eq (=) \<lparr>klass = BoundConstant, attrs = [(''required_conditions'', EmptyList), (''B'', Val (1 :: int))]\<rparr>
     \<lparr>klass = BoundConstant, attrs = [(''required_conditions'', EmptyList), (''B'', Val 1)]\<rparr> \<and>
   dunder_hash (\<lambda>s. int (length s)) int_repr
     \<lparr>klass = BoundConstant, attrs = [(''required_conditions'', EmptyList), (''B'', Val (1 :: int))]\<rparr> =
     (case dunder_str int_repr
        \<lparr>klass = BoundConstant, attrs = [(''required_conditions'', EmptyList), (''B'', Val (1 :: int))]\<rparr> of
        Inl e \<Rightarrow> Inl e | Inr s \<Rightarrow> Inr (int (length s)))"
proof -
  let ?a = "\<lparr>klass = BoundConstant, attrs = [(''required_conditions'', EmptyList), (''B'', Val (1 :: int))]\<rparr>"
  have l: "live ?a"
    using live_construct [OF variant_BoundConstant construct_BoundConstant [of "1 :: int"]] by simp
  have e: "py_eq (=) ?a ?a" by (simp add: py_eq_iff dict_eq_def)
  have c: "\<forall>x y :: int. x = y \<longrightarrow> int_repr x = int_repr y" by simp
  show ?thesis
    using equal_instances_render_and_hash_alike [OF l l e c, of "\<lambda>s. int (length s)"] l e by simp
qed

end
